theory Spec2Isabelle
  imports Main "HOL-Library.Sublist" "HOL-Library.Multiset"
begin

section \<open>Characters and Python string helpers\<close>

text \<open>
  Text is a list of characters. A character stands for the code point of the same
  number (U+0000 to U+00FF); the classes written in the regular expressions of
  \<^verbatim>\<open>scripts/bootstrap.py\<close> (\<^verbatim>\<open>[a-z]\<close>, \<^verbatim>\<open>[A-Z0-9_]\<close>) are ASCII
  ranges, and \<^verbatim>\<open>\w\<close> of a \<^verbatim>\<open>str\<close> pattern is Python's Unicode word class,
  written out below for these code points. \<^verbatim>\<open>str.lower\<close> and \<^verbatim>\<open>str.upper\<close> are
  modelled on the ASCII letters.
\<close>

definition code :: "char \<Rightarrow> nat" where
  "code c = of_char c"

definition is_lower :: "char \<Rightarrow> bool" where
  "is_lower c = (97 \<le> code c \<and> code c \<le> 122)"

definition is_upper :: "char \<Rightarrow> bool" where
  "is_upper c = (65 \<le> code c \<and> code c \<le> 90)"

definition is_digit :: "char \<Rightarrow> bool" where
  "is_digit c = (48 \<le> code c \<and> code c \<le> 57)"

definition is_word :: "char \<Rightarrow> bool" where
  "is_word c =
     (is_lower c \<or> is_upper c \<or> is_digit c \<or> c = CHR ''_''
      \<or> code c \<in> {170, 178, 179, 181, 185, 186, 188, 189, 190}
      \<or> (192 \<le> code c \<and> code c \<noteq> 215 \<and> code c \<noteq> 247))"

definition lower_char :: "char \<Rightarrow> char" where
  "lower_char c = (if is_upper c then char_of (code c + 32) else c)"

definition upper_char :: "char \<Rightarrow> char" where
  "upper_char c = (if is_lower c then char_of (code c - 32) else c)"

definition lower :: "string \<Rightarrow> string" where
  "lower s = map lower_char s"

definition upper :: "string \<Rightarrow> string" where
  "upper s = map upper_char s"

text \<open>\<^verbatim>\<open>s.replace(a, b)\<close> for one-character \<^verbatim>\<open>a\<close> and \<^verbatim>\<open>b\<close>.\<close>

definition replace_char :: "char \<Rightarrow> char \<Rightarrow> string \<Rightarrow> string" where
  "replace_char a b s = map (\<lambda>c. if c = a then b else c) s"

text \<open>
  Python's \<^verbatim>\<open>x or y\<close> on an optional string: \<^verbatim>\<open>None\<close> and the empty string are
  both falsy.
\<close>

definition truthy :: "string option \<Rightarrow> bool" where
  "truthy x = (case x of None \<Rightarrow> False | Some s \<Rightarrow> s \<noteq> [])"

definition or_else :: "string option \<Rightarrow> string \<Rightarrow> string" where
  "or_else x y = (case x of None \<Rightarrow> y | Some s \<Rightarrow> if s = [] then y else s)"

definition or_opt :: "string option \<Rightarrow> string option \<Rightarrow> string option" where
  "or_opt x y = (if truthy x then x else y)"


section \<open>Names: derivation and validation\<close>

text \<open>
  The dictionary that \<^verbatim>\<open>derive_names\<close> returns always has the same five keys; it is
  a record of five strings.
\<close>

record names =
  tool_slug :: string
  class_name :: string
  package_name :: string
  dist_name :: string
  env_prefix :: string

definition PLACEHOLDERS :: names where
  "PLACEHOLDERS =
     \<lparr>tool_slug = ''mimic'', class_name = ''Mimic'', package_name = ''mcpstack_mimic'',
      dist_name = ''mcpstack-mimic'', env_prefix = ''MCP_MIMIC''\<rparr>"

definition derive_names ::
  "string \<Rightarrow> string \<Rightarrow> string option \<Rightarrow> string option \<Rightarrow> string option \<Rightarrow> names" where
  "derive_names slug cls package dist env =
     (let slug_snake = replace_char CHR ''-'' CHR ''_'' (lower slug);
          pkg = or_else package (''mcpstack_'' @ slug_snake);
          dst = or_else dist (''mcpstack-'' @ replace_char CHR ''_'' CHR ''-'' (lower slug));
          envp = or_else env (''MCP_'' @ upper slug_snake)
      in \<lparr>tool_slug = slug_snake, class_name = cls, package_name = pkg,
          dist_name = dst, env_prefix = envp\<rparr>)"

text \<open>The five grammars, each a \<^verbatim>\<open>re.fullmatch\<close> of a character-class pattern.\<close>

definition snake_ok :: "string \<Rightarrow> bool" where
  "snake_ok s =
     (case s of [] \<Rightarrow> False
      | c # cs \<Rightarrow> is_lower c \<and> list_all (\<lambda>x. is_lower x \<or> is_digit x \<or> x = CHR ''_'') cs)"

definition pascal_ok :: "string \<Rightarrow> bool" where
  "pascal_ok s =
     (case s of [] \<Rightarrow> False
      | c # cs \<Rightarrow> is_upper c
          \<and> list_all (\<lambda>x. is_upper x \<or> is_lower x \<or> is_digit x \<or> x = CHR ''_'') cs)"

definition kebab_ok :: "string \<Rightarrow> bool" where
  "kebab_ok s =
     (case s of [] \<Rightarrow> False
      | c # cs \<Rightarrow> (is_lower c \<or> is_digit c)
          \<and> list_all (\<lambda>x. is_lower x \<or> is_digit x \<or> x = CHR ''-'') cs)"

definition upper_snake_ok :: "string \<Rightarrow> bool" where
  "upper_snake_ok s =
     (s \<noteq> [] \<and> list_all (\<lambda>x. is_upper x \<or> is_digit x \<or> x = CHR ''_'') s)"

definition err_slug :: string where
  "err_slug = ''tool-slug must be snake_case: [a-z][a-z0-9_]*''"

definition err_class :: string where
  "err_class = ''class-name must be PascalCase: [A-Z][A-Za-z0-9_]*''"

definition err_package :: string where
  "err_package = ''package-name must be a valid module name: [a-z][a-z0-9_]*''"

definition err_dist :: string where
  "err_dist = ''dist-name must be kebab-case: [a-z0-9][a-z0-9-]*''"

definition err_env :: string where
  "err_env = ''env-prefix must be upper snake: [A-Z0-9_]+''"

definition is_valid_names :: "names \<Rightarrow> bool \<times> string list" where
  "is_valid_names n =
     (let errs = (if \<not> snake_ok (tool_slug n) then [err_slug] else [])
               @ (if \<not> pascal_ok (class_name n) then [err_class] else [])
               @ (if \<not> snake_ok (package_name n) then [err_package] else [])
               @ (if \<not> kebab_ok (dist_name n) then [err_dist] else [])
               @ (if \<not> upper_snake_ok (env_prefix n) then [err_env] else [])
      in (length errs = 0, errs))"

text \<open>A name set that the validator accepts.\<close>

definition valid :: "names \<Rightarrow> bool" where
  "valid n = fst (is_valid_names n)"


section \<open>The rewriter\<close>

text \<open>
  Every pattern of \<^verbatim>\<open>replace_in_text\<close> has the shape \<^verbatim>\<open>\bLITERAL\b\<close> or
  \<^verbatim>\<open>\bLITERAL(?=[class])\<close>: a word boundary, a literal, and then either a second
  word boundary or a one-character lookahead.
\<close>

datatype tail = Boundary | Ahead "char \<Rightarrow> bool"

datatype pattern = Pat (lit: string) (tail: tail)

definition first :: "string \<Rightarrow> char option" where
  "first s = (case s of [] \<Rightarrow> None | c # _ \<Rightarrow> Some c)"

definition word_opt :: "char option \<Rightarrow> bool" where
  "word_opt x = (case x of None \<Rightarrow> False | Some c \<Rightarrow> is_word c)"

text \<open>
  \<^verbatim>\<open>\b\<close> holds between two positions exactly one of which is a word character; the
  start and the end of the text count as non-word.
\<close>

definition word_boundary :: "char option \<Rightarrow> char option \<Rightarrow> bool" where
  "word_boundary p n = (word_opt p \<noteq> word_opt n)"

definition tail_ok :: "tail \<Rightarrow> char option \<Rightarrow> string \<Rightarrow> bool" where
  "tail_ok t p s =
     (case t of Boundary \<Rightarrow> word_boundary p (first s)
      | Ahead cls \<Rightarrow> (case s of [] \<Rightarrow> False | c # _ \<Rightarrow> cls c))"

text \<open>
  \<open>match_at pt prev s\<close>: the pattern matches at the start of \<open>s\<close>, where \<open>prev\<close> is
  the character before \<open>s\<close> in the whole text (\<open>None\<close> at the start of the text).
\<close>

definition match_at :: "pattern \<Rightarrow> char option \<Rightarrow> string \<Rightarrow> bool" where
  "match_at pt prev s =
     (word_boundary prev (first s) \<and> prefix (lit pt) s
      \<and> tail_ok (tail pt) (if lit pt = [] then prev else Some (last (lit pt)))
           (drop (length (lit pt)) s))"

text \<open>
  \<^verbatim>\<open>re.sub(pat, repl, text)\<close> scans from the left and replaces every non-overlapping
  match. The literals are non-empty, so a match consumes at least one character. The
  replacement is inserted as it is: \<^verbatim>\<open>re.sub\<close> reads a replacement without a
  backslash literally, and no validated name has one.
\<close>

fun sub_from :: "pattern \<Rightarrow> string \<Rightarrow> char option \<Rightarrow> string \<Rightarrow> string" where
  "sub_from pt repl prev [] = []"
| "sub_from pt repl prev (c # cs) =
     (if match_at pt prev (c # cs)
      then repl @ sub_from pt repl (Some (last (lit pt))) (drop (length (lit pt) - 1) cs)
      else c # sub_from pt repl (Some c) cs)"

definition re_sub :: "pattern \<Rightarrow> string \<Rightarrow> string \<Rightarrow> string" where
  "re_sub pt repl text = sub_from pt repl None text"

definition upper_us :: "char \<Rightarrow> bool" where
  "upper_us c = (is_upper c \<or> c = CHR ''_'')"

definition upper_digit_us :: "char \<Rightarrow> bool" where
  "upper_digit_us c = (is_upper c \<or> is_digit c \<or> c = CHR ''_'')"

definition patterns :: "names \<Rightarrow> (pattern \<times> string) list" where
  "patterns mapping =
     [(Pat ''mcpstack_your_tool_name'' Boundary, package_name mapping),
      (Pat ''mcpstack-your-tool-name'' Boundary, dist_name mapping),
      (Pat ''YourTool'' (Ahead upper_us), class_name mapping),
      (Pat ''YourTool'' Boundary, class_name mapping),
      (Pat ''your_tool_name'' Boundary, tool_slug mapping),
      (Pat ''MCP_YOUR_TOOL_NAME'' (Ahead upper_digit_us), env_prefix mapping),
      (Pat ''MCP_YOUR_TOOL_NAME'' Boundary, env_prefix mapping)]"

definition apply_rule :: "pattern \<times> string \<Rightarrow> string \<Rightarrow> string" where
  "apply_rule r text = re_sub (fst r) (snd r) text"

definition replace_in_text :: "string \<Rightarrow> names \<Rightarrow> string" where
  "replace_in_text text mapping = fold apply_rule (patterns mapping) text"


section \<open>Resolving names from flags, saved configuration and placeholders\<close>

datatype error =
    BadParameter string
  | Exit nat
  | UnicodeDecodeError "string list"
  | OSError "string list"

text \<open>
  \<^verbatim>\<open>_load_config()\<close> returns \<^verbatim>\<open>None\<close> (no file, or a file that does not parse) or the
  parsed JSON object. Of that object only the entry \<^verbatim>\<open>"names"\<close> is read: \<open>None\<close> when
  the key is missing, else a dictionary from field names to strings.
\<close>

type_synonym config = "(string \<rightharpoonup> string) option"

definition get_or :: "(string \<rightharpoonup> string) \<Rightarrow> string \<Rightarrow> string \<Rightarrow> string" where
  "get_or d k dflt = (case d k of None \<Rightarrow> dflt | Some v \<Rightarrow> v)"

definition names_source :: "config option \<Rightarrow> bool \<Rightarrow> (string \<rightharpoonup> string)" where
  "names_source loaded prefer_config =
     (let cfg = (if prefer_config then loaded else None)
      in case cfg of None \<Rightarrow> Map.empty
         | Some c \<Rightarrow> (case c of None \<Rightarrow> Map.empty | Some m \<Rightarrow> m))"

fun join :: "string \<Rightarrow> string list \<Rightarrow> string" where
  "join sep [] = []"
| "join sep [x] = x"
| "join sep (x # y # ys) = x @ sep @ join sep (y # ys)"

text \<open>
  \<^verbatim>\<open>_ensure_names_from_sources\<close>; \<open>loaded\<close> is what \<^verbatim>\<open>_load_config()\<close> returns when
  it is called.
\<close>

definition ensure_names_from_sources ::
  "string option \<Rightarrow> string option \<Rightarrow> string option \<Rightarrow> string option \<Rightarrow> string option
     \<Rightarrow> bool \<Rightarrow> config option \<Rightarrow> error + names" where
  "ensure_names_from_sources slug cls package dist env prefer_config loaded =
     (let source = names_source loaded prefer_config;
          nms = derive_names
                  (or_else slug (get_or source ''tool_slug'' (tool_slug PLACEHOLDERS)))
                  (or_else cls (get_or source ''class_name'' (class_name PLACEHOLDERS)))
                  (or_opt package (source ''package_name''))
                  (or_opt dist (source ''dist_name''))
                  (or_opt env (source ''env_prefix''));
          r = is_valid_names nms
      in if \<not> fst r then Inl (BadParameter (join [char_of (10::nat)] (snd r))) else Inr nms)"


section \<open>The file tree\<close>

type_synonym path = "string list"

datatype node = Absent | Dir | File "string option"

text \<open>
  A path is the list of its parts. \<open>File (Some t)\<close> is a regular file whose bytes decode
  (UTF-8) to the text \<open>t\<close>; \<open>File None\<close> is a regular file that does not decode.
  \<open>root\<close> is \<^verbatim>\<open>TEMPLATE_ROOT\<close> and \<open>scaffold_dir\<close> is \<^verbatim>\<open>SCAFFOLD_DIR\<close>, both fixed
  when the module is loaded.
\<close>

record tree =
  root :: path
  scaffold_dir :: path
  node :: "path \<Rightarrow> node"

definition SRC :: "tree \<Rightarrow> path" where
  "SRC t = root t @ [''src'']"

definition TESTS :: "tree \<Rightarrow> path" where
  "TESTS t = root t @ [''tests'']"

definition pyproject :: "tree \<Rightarrow> path" where
  "pyproject t = root t @ [''pyproject.toml'']"

definition exists :: "tree \<Rightarrow> path \<Rightarrow> bool" where
  "exists t p = (node t p \<noteq> Absent)"

definition is_file :: "tree \<Rightarrow> path \<Rightarrow> bool" where
  "is_file t p = (case node t p of File _ \<Rightarrow> True | _ \<Rightarrow> False)"

definition IGNORED_PARTS :: "string list" where
  "IGNORED_PARTS = [''.venv'', ''.git'', ''__pycache__'', ''.mypy_cache'', ''.pytest_cache'',
     ''.ruff_cache'', ''node_modules'']"

definition IGNORED_SUFFIXES :: "string list" where
  "IGNORED_SUFFIXES = [''.pyc'', ''.pyo'', ''.DS_Store'']"

text \<open>
  \<^verbatim>\<open>Path.suffix\<close>: the part of the last component from its last dot on, when that dot
  is neither the first nor the last character of the component; else the empty string.
\<close>

definition path_suffix :: "path \<Rightarrow> string" where
  "path_suffix p =
     (case rev p of [] \<Rightarrow> []
      | name # _ \<Rightarrow>
          (let after = rev (takeWhile (\<lambda>c. c \<noteq> CHR ''.'') (rev name));
               i = length name - length after - 1
           in if CHR ''.'' \<in> set name \<and> 0 < i \<and> after \<noteq> [] then CHR ''.'' # after else []))"

definition skip_path :: "path \<Rightarrow> bool" where
  "skip_path p =
     (if list_ex (\<lambda>part. part \<in> set IGNORED_PARTS) p then True
      else if path_suffix p \<in> set IGNORED_SUFFIXES then True
      else False)"

text \<open>
  \<open>rglob d\<close> is what \<^verbatim>\<open>d.rglob("*")\<close> yields on the tree, in the order the operating
  system gives. \<^verbatim>\<open>iter_files\<close> is a generator; its caller's writes replace the text
  of regular files and change neither which paths exist nor which are regular files,
  so the paths it yields are those of the tree at the call.
\<close>

definition iter_files :: "(path \<Rightarrow> path list) \<Rightarrow> tree \<Rightarrow> path list" where
  "iter_files rglob t =
     (if exists t (SRC t) \<and> exists t (TESTS t)
      then filter (\<lambda>p. is_file t p \<and> \<not> skip_path p) (rglob (SRC t) @ rglob (TESTS t))
      else [])
     @ (if exists t (pyproject t) \<and> is_file t (pyproject t) then [pyproject t] else [])"


section \<open>Commands on the tree\<close>

datatype message =
    Applied nat bool
  | Tip
  | MissingScaffold
  | SkippedSrc
  | SkippedTests
  | SkippedPyproject
  | SkippedReadme
  | ResetComplete

datatype event =
    Read path
  | Write path
  | Mkdir path
  | Move path path
  | Rmtree path
  | Copytree path path
  | Copy2 path path
  | Print message

text \<open>
  A command runs on a state: the tree and the log of what it has done so far. A step
  ends with an error (an exception or \<^verbatim>\<open>typer.Exit\<close>) or with a value, and the
  state it leaves.
\<close>

record state =
  fs :: tree
  log :: "event list"

type_synonym 'a step = "state \<Rightarrow> (error + 'a) \<times> state"

definition and_then :: "'a step \<Rightarrow> ('a \<Rightarrow> 'b step) \<Rightarrow> 'b step" where
  "and_then f g s = (case f s of (Inl e, s1) \<Rightarrow> (Inl e, s1) | (Inr x, s1) \<Rightarrow> g x s1)"

definition succeed :: "'a \<Rightarrow> 'a step" where
  "succeed x s = (Inr x, s)"


definition emit :: "event \<Rightarrow> state \<Rightarrow> state" where
  "emit ev s = s\<lparr>log := log s @ [ev]\<rparr>"

definition print :: "message \<Rightarrow> unit step" where
  "print m s = (Inr (), emit (Print m) s)"

definition set_node :: "path \<Rightarrow> node \<Rightarrow> state \<Rightarrow> state" where
  "set_node p n s = s\<lparr>fs := (fs s)\<lparr>node := (node (fs s))(p := n)\<rparr>\<rparr>"

definition write_text :: "path \<Rightarrow> string \<Rightarrow> state \<Rightarrow> state" where
  "write_text p txt s = emit (Write p) (set_node p (File (Some txt)) s)"

text \<open>
  The loop of \<^verbatim>\<open>_do_apply\<close> over the enumerated paths; the number is \<^verbatim>\<open>changes\<close>.
\<close>

fun rewrite_files :: "names \<Rightarrow> path list \<Rightarrow> nat \<Rightarrow> nat step" where
  "rewrite_files nms [] changes s = (Inr changes, s)"
| "rewrite_files nms (p # ps) changes s =
     (case node (fs s) p of
        File (Some txt) \<Rightarrow>
          (let s1 = emit (Read p) s;
               new_txt = replace_in_text txt nms
           in if new_txt \<noteq> txt
              then rewrite_files nms ps (changes + 1) (write_text p new_txt s1)
              else rewrite_files nms ps changes s1)
      | File None \<Rightarrow> (Inl (UnicodeDecodeError p), s)
      | _ \<Rightarrow> (Inl (OSError p), s))"

text \<open>
  \<^verbatim>\<open>Path.mkdir(parents=True, exist_ok=True)\<close>: every missing ancestor and the path
  itself become directories; a regular file in the way is an error.
\<close>

definition mkdir_parents :: "path \<Rightarrow> unit step" where
  "mkdir_parents p s =
     (if list_ex (\<lambda>q. is_file (fs s) q) (prefixes p) then (Inl (OSError p), s)
      else (Inr (),
            emit (Mkdir p)
              (s\<lparr>fs := (fs s)\<lparr>node := (\<lambda>q. if prefix q p \<and> node (fs s) q = Absent then Dir
                                           else node (fs s) q)\<rparr>\<rparr>)))"

text \<open>Moving the subtree at \<open>a\<close> to \<open>b\<close>: what was at \<open>a @ r\<close> is at \<open>b @ r\<close> afterwards.\<close>

definition rename_tree :: "path \<Rightarrow> path \<Rightarrow> tree \<Rightarrow> tree" where
  "rename_tree a b t =
     t\<lparr>node := (\<lambda>q. if prefix b q then node t (a @ drop (length b) q)
                     else if prefix a q then Absent else node t q)\<rparr>"

text \<open>
  \<^verbatim>\<open>shutil.move(a, b)\<close>: a rename when \<open>b\<close> does not exist; a move into \<open>b\<close> when \<open>b\<close>
  is a directory (an error when the name is taken there); onto a regular file only
  a regular file can be renamed.
\<close>

definition move :: "path \<Rightarrow> path \<Rightarrow> unit step" where
  "move a b s =
     (case node (fs s) b of
        Absent \<Rightarrow> (Inr (), emit (Move a b) (s\<lparr>fs := rename_tree a b (fs s)\<rparr>))
      | Dir \<Rightarrow>
          (if a = [] \<or> exists (fs s) (b @ [last a]) then (Inl (OSError b), s)
           else (Inr (), emit (Move a (b @ [last a]))
                           (s\<lparr>fs := rename_tree a (b @ [last a]) (fs s)\<rparr>)))
      | File _ \<Rightarrow>
          (if is_file (fs s) a
           then (Inr (), emit (Move a b) (s\<lparr>fs := rename_tree a b (fs s)\<rparr>))
           else (Inl (OSError b), s)))"

record summary =
  files_changed :: nat
  moved :: bool

text \<open>
  \<^verbatim>\<open>_do_apply(names, yes)\<close>; \<open>answer\<close> is what the user replies if \<^verbatim>\<open>Confirm.ask\<close> is
  called. \<^verbatim>\<open>typer.Exit()\<close> carries exit code 0.
\<close>

definition do_apply ::
  "(path \<Rightarrow> path list) \<Rightarrow> names \<Rightarrow> bool \<Rightarrow> bool \<Rightarrow> summary step" where
  "do_apply rglob nms yes answer s =
     (if \<not> yes \<and> \<not> answer then (Inl (Exit 0), s)
      else
        and_then (rewrite_files nms (iter_files rglob (fs s)) 0) (\<lambda>changes s1.
          (let old_pkg_dir = SRC (fs s1) @ [''mcpstack_your_tool_name''];
               new_pkg_dir = SRC (fs s1) @ [package_name nms]
           in if exists (fs s1) old_pkg_dir \<and> old_pkg_dir \<noteq> new_pkg_dir
              then and_then (mkdir_parents (SRC (fs s1))) (\<lambda>_.
                   and_then (move old_pkg_dir new_pkg_dir) (\<lambda>_.
                   and_then (print (Applied changes True)) (\<lambda>_.
                   succeed \<lparr>files_changed = changes, moved = True\<rparr>))) s1
              else and_then (print (Applied changes False)) (\<lambda>_.
                   succeed \<lparr>files_changed = changes, moved = False\<rparr>) s1)) s)"


section \<open>Reset\<close>






section \<open>Example inputs\<close>





text \<open>A saved configuration that stores a slug and a class name.\<close>

definition config0 :: "config option" where
  "config0 = Some (Some [''tool_slug'' \<mapsto> ''abc'', ''class_name'' \<mapsto> ''Abc''])"


text \<open>The paths written, in order, and whether the rewriter changes the text of a file.\<close>

fun writes_of :: "event list \<Rightarrow> path list" where
  "writes_of [] = []"
| "writes_of (Write p # es) = p # writes_of es"
| "writes_of (_ # es) = writes_of es"









section \<open>Properties\<close>

subsection \<open>Derivation and validation\<close>




lemma is_valid_names_example:
  "is_valid_names \<lparr>tool_slug = ''My-Tool'', class_name = ''MyTool'',
        package_name = ''mcpstack_my_tool'', dist_name = ''mcpstack-my-tool'',
        env_prefix = ''mcp_x''\<rparr> = (False, [err_slug, err_env])"
  by code_simp

lemma is_valid_names_general:
  "snd (is_valid_names n) =
     map snd (filter (\<lambda>r. \<not> fst r)
       [(snake_ok (tool_slug n), err_slug), (pascal_ok (class_name n), err_class),
        (snake_ok (package_name n), err_package), (kebab_ok (dist_name n), err_dist),
        (upper_snake_ok (env_prefix n), err_env)])
   \<and> fst (is_valid_names n) = (snd (is_valid_names n) = [])
   \<and> fst (is_valid_names n) =
       (snake_ok (tool_slug n) \<and> pascal_ok (class_name n) \<and> snake_ok (package_name n)
        \<and> kebab_ok (dist_name n) \<and> upper_snake_ok (env_prefix n))"
  by (simp add: is_valid_names_def Let_def)

text \<open>
  C6. The validator checks all five grammars and returns, in the order of the fields,
  the message of every field that fails; \<open>ok\<close> is true exactly when that list is empty,
  that is when all five grammars hold. With the slug \<^verbatim>\<open>My-Tool\<close> and the prefix
  \<^verbatim>\<open>mcp_x\<close> (the other fields valid) it returns exactly the two messages of these two
  fields.
\<close>

theorem is_valid_names_complete:
  "snd (is_valid_names n) =
     map snd (filter (\<lambda>r. \<not> fst r)
       [(snake_ok (tool_slug n), err_slug), (pascal_ok (class_name n), err_class),
        (snake_ok (package_name n), err_package), (kebab_ok (dist_name n), err_dist),
        (upper_snake_ok (env_prefix n), err_env)])
   \<and> fst (is_valid_names n) = (snd (is_valid_names n) = [])
   \<and> fst (is_valid_names n) =
       (snake_ok (tool_slug n) \<and> pascal_ok (class_name n) \<and> snake_ok (package_name n)
        \<and> kebab_ok (dist_name n) \<and> upper_snake_ok (env_prefix n))
   \<and> is_valid_names \<lparr>tool_slug = ''My-Tool'', class_name = ''MyTool'',
        package_name = ''mcpstack_my_tool'', dist_name = ''mcpstack-my-tool'',
        env_prefix = ''mcp_x''\<rparr> = (False, [err_slug, err_env])"
  using is_valid_names_example is_valid_names_general by blast


subsection \<open>Tree enumeration\<close>





subsection \<open>Apply\<close>

text \<open>
  C9. When \<^verbatim>\<open>yes\<close> is false and the user declines, \<^verbatim>\<open>_do_apply\<close> ends with
  \<^verbatim>\<open>typer.Exit\<close> of code 0 and leaves the state as it was: the tree is unchanged and
  nothing has been read, written or moved.
\<close>

theorem do_apply_declined:
  "do_apply rglob nms False False s = (Inl (Exit 0), s)"
  by (simp add: do_apply_def)

subsection \<open>Precedence of flags, saved configuration and defaults\<close>

lemma replace_char_twice:
  "replace_char CHR ''_'' CHR ''-'' (replace_char CHR ''-'' CHR ''_'' s)
     = replace_char CHR ''_'' CHR ''-'' s"
  by (induction s) (auto simp: replace_char_def)

lemma or_else_pick:
  "or_else x y = (if truthy x then the x else y)"
  by (cases x) (auto simp: or_else_def truthy_def)

lemma get_or_pick:
  "get_or d k dflt = (if d k \<noteq> None then the (d k) else dflt)"
  by (cases "d k") (auto simp: get_or_def)

lemma or_else_or_opt:
  "or_else (or_opt x y) z = (if truthy x then the x else if truthy y then the y else z)"
  by (cases x; cases y) (auto simp: or_else_def or_opt_def truthy_def)

lemma ensure_names_result:
  assumes "ensure_names_from_sources slug cls package dist env prefer_config loaded = Inr n"
    and "src = names_source loaded prefer_config"
  shows "n = derive_names
                  (or_else slug (get_or src ''tool_slug'' (tool_slug PLACEHOLDERS)))
                  (or_else cls (get_or src ''class_name'' (class_name PLACEHOLDERS)))
                  (or_opt package (src ''package_name''))
                  (or_opt dist (src ''dist_name''))
                  (or_opt env (src ''env_prefix''))"
    and "valid n"
  using assms
  by (simp_all add: ensure_names_from_sources_def Let_def valid_def split: if_splits)

text \<open>
  The claim that an explicit override is used whenever it is supplied fails for the
  empty string: Python's \<^verbatim>\<open>or\<close> treats it as absent, so with the flag
  \<^verbatim>\<open>--tool-slug ""\<close> the stored slug is used.
\<close>

theorem ensure_names_counterexample:
  "ensure_names_from_sources (Some '''') None None None None True config0 =
     Inr \<lparr>tool_slug = ''abc'', class_name = ''Abc'', package_name = ''mcpstack_abc'',
          dist_name = ''mcpstack-abc'', env_prefix = ''MCP_ABC''\<rparr>"
  by code_simp

text \<open>
  C4, as the code has it. Whenever \<^verbatim>\<open>_ensure_names_from_sources\<close> returns a name
  set, each of its five fields comes from the first of three sources that applies,
  independently of the other fields: the override when it is given and not empty;
  else the value stored under the field in the saved configuration (for the slug and
  the class name: when the key is stored; for the other three: when the stored value
  is not empty); else the default, which is the placeholder for the slug and the class
  name and the formula over the resolved slug for the package name, the distribution
  name and the prefix. The slug is lower-cased and its hyphens become underscores,
  whichever source it comes from. \<open>src\<close> is the stored dictionary, empty when no
  configuration is loaded or the caller bypasses it.
\<close>

theorem ensure_names_precedence:
  assumes "ensure_names_from_sources slug cls package dist env prefer_config loaded = Inr n"
    and "src = names_source loaded prefer_config"
  shows "tool_slug n = replace_char CHR ''-'' CHR ''_'' (lower
            (if truthy slug then the slug
             else if src ''tool_slug'' \<noteq> None then the (src ''tool_slug'')
             else tool_slug PLACEHOLDERS))
       \<and> class_name n =
            (if truthy cls then the cls
             else if src ''class_name'' \<noteq> None then the (src ''class_name'')
             else class_name PLACEHOLDERS)
       \<and> package_name n =
            (if truthy package then the package
             else if truthy (src ''package_name'') then the (src ''package_name'')
             else ''mcpstack_'' @ tool_slug n)
       \<and> dist_name n =
            (if truthy dist then the dist
             else if truthy (src ''dist_name'') then the (src ''dist_name'')
             else ''mcpstack-'' @ replace_char CHR ''_'' CHR ''-'' (tool_slug n))
       \<and> env_prefix n =
            (if truthy env then the env
             else if truthy (src ''env_prefix'') then the (src ''env_prefix'')
             else ''MCP_'' @ upper (tool_slug n))
       \<and> valid n"
proof -
  note n = ensure_names_result(1)[OF assms] and v = ensure_names_result(2)[OF assms]
  have 1: "tool_slug n = replace_char CHR ''-'' CHR ''_'' (lower
            (if truthy slug then the slug
             else if src ''tool_slug'' \<noteq> None then the (src ''tool_slug'')
             else tool_slug PLACEHOLDERS))"
    by (subst n) (simp add: derive_names_def Let_def or_else_pick get_or_pick)
  have 2: "class_name n =
            (if truthy cls then the cls
             else if src ''class_name'' \<noteq> None then the (src ''class_name'')
             else class_name PLACEHOLDERS)"
    by (subst n) (simp add: derive_names_def Let_def or_else_pick get_or_pick)
  have ts: "tool_slug n = replace_char CHR ''-'' CHR ''_'' (lower
              (or_else slug (get_or src ''tool_slug'' (tool_slug PLACEHOLDERS))))"
    by (subst n) (simp add: derive_names_def Let_def)
  have 3: "package_name n =
            (if truthy package then the package
             else if truthy (src ''package_name'') then the (src ''package_name'')
             else ''mcpstack_'' @ tool_slug n)"
    unfolding ts by (subst n) (simp add: derive_names_def Let_def or_else_or_opt)
  have 4: "dist_name n =
            (if truthy dist then the dist
             else if truthy (src ''dist_name'') then the (src ''dist_name'')
             else ''mcpstack-'' @ replace_char CHR ''_'' CHR ''-'' (tool_slug n))"
    unfolding ts replace_char_twice
    by (subst n) (simp add: derive_names_def Let_def or_else_or_opt)
  have 5: "env_prefix n =
            (if truthy env then the env
             else if truthy (src ''env_prefix'') then the (src ''env_prefix'')
             else ''MCP_'' @ upper (tool_slug n))"
    unfolding ts by (subst n) (simp add: derive_names_def Let_def or_else_or_opt)
  from 1 2 3 4 5 v show ?thesis by blast
qed

theorem ensure_names_precedence_witness:
  "ensure_names_from_sources None (Some ''Foo'') None None (Some ''X'') True config0 =
     Inr \<lparr>tool_slug = ''abc'', class_name = ''Foo'', package_name = ''mcpstack_abc'',
          dist_name = ''mcpstack-abc'', env_prefix = ''X''\<rparr>
   \<and> valid \<lparr>tool_slug = ''abc'', class_name = ''Foo'', package_name = ''mcpstack_abc'',
          dist_name = ''mcpstack-abc'', env_prefix = ''X''\<rparr>"
proof -
  have h: "ensure_names_from_sources None (Some ''Foo'') None None (Some ''X'') True config0 =
     Inr \<lparr>tool_slug = ''abc'', class_name = ''Foo'', package_name = ''mcpstack_abc'',
          dist_name = ''mcpstack-abc'', env_prefix = ''X''\<rparr>"
    by code_simp
  from ensure_names_precedence[OF h refl]
  have "valid \<lparr>tool_slug = ''abc'', class_name = ''Foo'', package_name = ''mcpstack_abc'',
          dist_name = ''mcpstack-abc'', env_prefix = ''X''\<rparr>"
    by blast
  with h show ?thesis by simp
qed

subsection \<open>Apply accounting\<close>

lemma writes_of_append: "writes_of (xs @ ys) = writes_of xs @ writes_of ys"
  by (induction xs rule: writes_of.induct) auto





lemma print_writes:
  "print m s = (r, s') \<Longrightarrow> writes_of (log s') = writes_of (log s)"
  by (auto simp: print_def emit_def writes_of_append)






subsection \<open>Reset\<close>












end
